theory Spec2Isabelle
  imports Complex_Main
begin

section \<open>JavaScript numbers and their text\<close>

text \<open>
  A JavaScript number is modelled as an exact rational or one of the three special values.
  The rounding of binary64 and the sign of zero are not modelled: every finite number is
  the rational it denotes.
\<close>

datatype jsnum = Num rat | NaN | PosInf | NegInf

text \<open>\<open>a + b\<close> on numbers.\<close>

fun js_add :: "jsnum \<Rightarrow> jsnum \<Rightarrow> jsnum" where
  "js_add (Num a) (Num b) = Num (a + b)"
| "js_add NaN _ = NaN"
| "js_add _ NaN = NaN"
| "js_add PosInf NegInf = NaN"
| "js_add NegInf PosInf = NaN"
| "js_add PosInf _ = PosInf"
| "js_add _ PosInf = PosInf"
| "js_add NegInf _ = NegInf"
| "js_add _ NegInf = NegInf"

text \<open>\<open>a * b\<close> on numbers.\<close>

fun js_mul :: "jsnum \<Rightarrow> jsnum \<Rightarrow> jsnum" where
  "js_mul (Num a) (Num b) = Num (a * b)"
| "js_mul NaN _ = NaN"
| "js_mul _ NaN = NaN"
| "js_mul PosInf (Num b) = (if b = 0 then NaN else if 0 < b then PosInf else NegInf)"
| "js_mul NegInf (Num b) = (if b = 0 then NaN else if 0 < b then NegInf else PosInf)"
| "js_mul (Num a) PosInf = (if a = 0 then NaN else if 0 < a then PosInf else NegInf)"
| "js_mul (Num a) NegInf = (if a = 0 then NaN else if 0 < a then NegInf else PosInf)"
| "js_mul PosInf PosInf = PosInf"
| "js_mul NegInf NegInf = PosInf"
| "js_mul PosInf NegInf = NegInf"
| "js_mul NegInf PosInf = NegInf"

text \<open>
  \<open>a / b\<close> on numbers. Division never raises in JavaScript: a zero divisor gives
  \<open>NaN\<close> (for \<open>0 / 0\<close>) or an infinity. The divisor zero is taken as positive zero.
\<close>

fun js_div :: "jsnum \<Rightarrow> jsnum \<Rightarrow> jsnum" where
  "js_div (Num a) (Num b) =
     (if b \<noteq> 0 then Num (a / b)
      else if a = 0 then NaN
      else if 0 < a then PosInf else NegInf)"
| "js_div NaN _ = NaN"
| "js_div _ NaN = NaN"
| "js_div (Num a) PosInf = Num 0"
| "js_div (Num a) NegInf = Num 0"
| "js_div PosInf (Num b) = (if 0 \<le> b then PosInf else NegInf)"
| "js_div NegInf (Num b) = (if 0 \<le> b then NegInf else PosInf)"
| "js_div PosInf _ = NaN"
| "js_div NegInf _ = NaN"

text \<open>\<open>a > 0\<close>, false for \<open>NaN\<close>.\<close>

fun js_positive :: "jsnum \<Rightarrow> bool" where
  "js_positive (Num a) = (0 < a)"
| "js_positive PosInf = True"
| "js_positive _ = False"


fun isNaN :: "jsnum \<Rightarrow> bool" where
  "isNaN NaN = True"
| "isNaN _ = False"

text \<open>\<open>x || 0\<close> on a number: the falsy numbers are zero and \<open>NaN\<close>.\<close>

fun js_or_zero :: "jsnum \<Rightarrow> jsnum" where
  "js_or_zero NaN = Num 0"
| "js_or_zero x = x"

text \<open>The decimal digits of a natural number, without leading zeros.\<close>

definition digit :: "nat \<Rightarrow> char" where
  "digit d = ''0123456789'' ! (d mod 10)"

fun show_nat :: "nat \<Rightarrow> string" where
  "show_nat n = (if n < 10 then [digit n] else show_nat (n div 10) @ [digit n])"

declare show_nat.simps [simp del]

text \<open>
  \<open>Number.prototype.toFixed(f)\<close> for \<open>0 \<le> f \<le> 100\<close> (the source calls it with 0, 1
  and 2). A number that is not finite is printed by name. The sign is taken off first; a
  magnitude from \<open>10^21\<close> on is printed by \<open>Number::toString\<close>, whose digits depend on
  the binary64 neighbours of the number and which is therefore the parameter
  \<open>numberToString\<close>. Below that, \<open>n\<close> is the integer nearest to \<open>x * 10^f\<close>, the
  larger one on a tie, printed with at least \<open>f + 1\<close> digits and a point before the
  last \<open>f\<close>.
\<close>

definition toFixed :: "(rat \<Rightarrow> string) \<Rightarrow> nat \<Rightarrow> jsnum \<Rightarrow> string" where
  "toFixed numberToString f x =
     (case x of
        NaN \<Rightarrow> ''NaN''
      | PosInf \<Rightarrow> ''Infinity''
      | NegInf \<Rightarrow> ''-Infinity''
      | Num r \<Rightarrow>
          (let s = (if r < 0 then ''-'' else '''');
               a = \<bar>r\<bar>
           in if 10 ^ 21 \<le> a then s @ numberToString a
              else
                (let n = nat \<lfloor>a * 10 ^ f + 1 / 2\<rfloor>;
                     m = show_nat n
                 in if f = 0 then s @ m
                    else
                      (let m' = (if length m \<le> f
                                 then replicate (f + 1 - length m) (CHR ''0'') @ m
                                 else m);
                           k = length m'
                       in s @ take (k - f) m' @ ''.'' @ drop (k - f) m'))))"

section \<open>The colour theme\<close>

definition primary :: string where "primary = ''#6A7A5A''"
definition secondary :: string where "secondary = ''#8DAF98''"
definition tertiary :: string where "tertiary = ''#BED2BA''"
definition accent :: string where "accent = ''#D7CBB2''"
definition complement :: string where "complement = ''#A8C7BA''"

definition palette :: "string list" where
  "palette =
     [''#6A7A5A'', ''#8DAF98'', ''#BED2BA'', ''#D7CBB2'', ''#A8C7BA'',
      ''#7A8B6A'', ''#9DBF88'', ''#CEE2CA'', ''#E2D6C2'', ''#B8D7CA'']"


definition expense_colors :: "string list" where
  "expense_colors =
     [''#BF8A7D'', ''#D7CBB2'', ''#C7B299'', ''#B8A485'', ''#A99571'', ''#9A875D'']"

text \<open>
  \<open>parseInt(s, 16)\<close>: leading white space, a sign and a \<open>0x\<close> prefix are skipped, then
  the longest run of hexadecimal digits is read; \<open>None\<close> is \<open>NaN\<close> (no digit).
\<close>

definition hexval :: "char \<Rightarrow> nat option" where
  "hexval c =
     (let n = of_char c :: nat
      in if 48 \<le> n \<and> n \<le> 57 then Some (n - 48)
         else if 65 \<le> n \<and> n \<le> 70 then Some (n - 55)
         else if 97 \<le> n \<and> n \<le> 102 then Some (n - 87)
         else None)"

fun hexrun :: "nat option \<Rightarrow> string \<Rightarrow> nat option" where
  "hexrun acc [] = acc"
| "hexrun acc (c # cs) =
     (case hexval c of
        None \<Rightarrow> acc
      | Some d \<Rightarrow> hexrun (Some ((case acc of None \<Rightarrow> 0 | Some a \<Rightarrow> a) * 16 + d)) cs)"

definition is_space :: "char \<Rightarrow> bool" where
  "is_space c = (of_char c \<in> {9, 10, 11, 12, 13, 32, 160 :: nat})"

definition parseInt16 :: "string \<Rightarrow> int option" where
  "parseInt16 s =
     (let t = dropWhile is_space s;
          neg = (take 1 t = ''-'');
          u = (if take 1 t = ''-'' \<or> take 1 t = ''+'' then drop 1 t else t);
          v = (if take 2 u = ''0x'' \<or> take 2 u = ''0X'' then drop 2 u else u)
      in map_option (\<lambda>n. if neg then - int n else int n) (hexrun None v))"

definition show_int_opt :: "int option \<Rightarrow> string" where
  "show_int_opt v =
     (case v of
        None \<Rightarrow> ''NaN''
      | Some i \<Rightarrow> (if i < 0 then ''-'' else '''') @ show_nat (nat \<bar>i\<bar>))"

text \<open>
  \<open>hex.slice(a, b)\<close> for \<open>0 \<le> a \<le> b\<close>, and \<open>hexToRgba\<close>. The alpha is passed as the
  text the template prints for it (the source's literals \<open>0.1\<close> and \<open>0.3\<close> print as
  written).
\<close>

definition slice :: "nat \<Rightarrow> nat \<Rightarrow> 'a list \<Rightarrow> 'a list" where
  "slice a b xs = take (b - a) (drop a xs)"

definition hexToRgba :: "string \<Rightarrow> string \<Rightarrow> string" where
  "hexToRgba hex alpha =
     (let r = parseInt16 (slice 1 3 hex);
          g = parseInt16 (slice 3 5 hex);
          b = parseInt16 (slice 5 7 hex)
      in ''rgba('' @ show_int_opt r @ '', '' @ show_int_opt g @ '', '' @ show_int_opt b
           @ '', '' @ alpha @ '')'')"

section \<open>Charts\<close>

text \<open>
  A data set of a chart. \<open>backgroundColor\<close> is one colour (line and bar charts) or an
  array of colours, one per slice (doughnut and pie). The constant styling of the source
  (widths, radii, tension, fonts, animation) is read by no function of the module and is
  left out.
\<close>

datatype colorval = Color string | Colors "string list"

record dataset =
  label :: "string option"
  data :: "jsnum list"
  backgroundColor :: "colorval option"
  borderColor :: "string option"
  fill :: "bool option"

record chartData =
  labels :: "string list"
  datasets :: "dataset list"

text \<open>
  The object \<open>new Chart(ctx, {type, data, options})\<close> returns: its drawing surface (lost
  on \<open>destroy\<close>), its type, its data, and the number of redraws \<open>update()\<close> has
  triggered.
\<close>

record chart =
  ctx :: "nat option"
  ctype :: string
  cdata :: chartData
  redraws :: nat

definition new_Chart :: "nat \<Rightarrow> string \<Rightarrow> chartData \<Rightarrow> chart" where
  "new_Chart surface ty d = \<lparr>ctx = Some surface, ctype = ty, cdata = d, redraws = 0\<rparr>"

record point =
  month :: string
  income :: jsnum
  expense :: jsnum
  balance :: jsnum

definition createMonthlyTrendChart :: "nat \<Rightarrow> point list \<Rightarrow> chart" where
  "createMonthlyTrendChart surface points =
     new_Chart surface ''line''
       \<lparr>labels = map month points,
        datasets =
          [\<lparr>label = Some ''Income'',
            data = map income points,
            backgroundColor = Some (Color (hexToRgba primary ''0.1'')),
            borderColor = Some primary,
            fill = Some False\<rparr>,
           \<lparr>label = Some ''Expenses'',
            data = map expense points,
            backgroundColor = Some (Color (hexToRgba (expense_colors ! 0) ''0.1'')),
            borderColor = Some (expense_colors ! 0),
            fill = Some False\<rparr>,
           \<lparr>label = Some ''Net Balance'',
            data = map balance points,
            backgroundColor = Some (Color (hexToRgba secondary ''0.1'')),
            borderColor = Some secondary,
            fill = Some True\<rparr>]\<rparr>"




text \<open>
  The tooltip label callback of the doughnut chart (the pie chart's is the same text):
  \<open>context.label || ''\<close>, \<open>context.parsed || 0\<close>, the total of the data set by
  \<open>reduce\<close> from 0, and the percentage, computed with no test of the total.
\<close>

record tooltipContext =
  context_label :: string
  parsed :: jsnum
  dataset_data :: "jsnum list"

definition doughnutTooltipLabel :: "(rat \<Rightarrow> string) \<Rightarrow> tooltipContext \<Rightarrow> string" where
  "doughnutTooltipLabel numberToString context =
     (let lab = context_label context;
          v = js_or_zero (parsed context);
          tot = foldl js_add (Num 0) (dataset_data context);
          percentage = toFixed numberToString 1 (js_mul (js_div v tot) (Num 100))
      in lab @ '': $'' @ toFixed numberToString 0 v @ '' ('' @ percentage @ ''%)'')"

text \<open>
  The bar chart: every data set of the caller is copied and given the palette colour of
  its index, modulo the length of the palette.
\<close>

definition createBarChart :: "nat \<Rightarrow> string list \<Rightarrow> dataset list \<Rightarrow> chart" where
  "createBarChart surface labs dsets =
     new_Chart surface ''bar''
       \<lparr>labels = labs,
        datasets =
          map (\<lambda>(index, ds).
                 ds\<lparr>backgroundColor := Some (Color (palette ! (index mod length palette))),
                    borderColor := Some (palette ! (index mod length palette))\<rparr>)
              (enumerate 0 dsets)\<rparr>"



text \<open>
  The pie chart: the colours of the caller when given (\<open>None\<close> is \<open>null\<close>; an
  array, even the empty one, is truthy), and else the first \<open>labels.length\<close> entries
  of the palette. Its tooltip label callback has the text of the doughnut's.
\<close>

definition createPieChart ::
  "nat \<Rightarrow> string list \<Rightarrow> jsnum list \<Rightarrow> string list option \<Rightarrow> chart" where
  "createPieChart surface labs vals colors =
     (let chartColors = (case colors of
                           Some cs \<Rightarrow> cs
                         | None \<Rightarrow> slice 0 (length labs) palette)
      in new_Chart surface ''pie''
           \<lparr>labels = labs,
            datasets =
              [\<lparr>label = None,
                data = vals,
                backgroundColor = Some (Colors chartColors),
                borderColor = Some ''#ffffff'',
                fill = None\<rparr>]\<rparr>)"

definition pieTooltipLabel :: "(rat \<Rightarrow> string) \<Rightarrow> tooltipContext \<Rightarrow> string" where
  "pieTooltipLabel numberToString context = doughnutTooltipLabel numberToString context"

text \<open>
  \<open>xs[i]\<close> on an array: \<open>None\<close> is \<open>undefined\<close>, what an index out of range reads.
\<close>

definition at_index :: "'a list \<Rightarrow> nat \<Rightarrow> 'a option" where
  "at_index xs i = (if i < length xs then Some (xs ! i) else None)"


text \<open>
  \<open>calculatePercentage\<close> returns the text of \<open>toFixed(1)\<close> or the number 0.
\<close>

datatype jsval = Str string | Number jsnum

definition calculatePercentage :: "(rat \<Rightarrow> string) \<Rightarrow> jsnum \<Rightarrow> jsnum \<Rightarrow> jsval" where
  "calculatePercentage numberToString v tot =
     (if js_positive tot
      then Str (toFixed numberToString 1 (js_mul (js_div v tot) (Num 100)))
      else Number (Num 0))"

subsection \<open>Chart handles\<close>

text \<open>
  Chart objects live in a store and are reached through references, so that the identity
  of a chart is its reference. A handle is absent (\<open>null\<close> or \<open>undefined\<close>), some
  other value that is no chart (it has no \<open>data\<close>, \<open>destroy\<close> or \<open>update\<close>), or a
  reference to a chart object.
\<close>

datatype error = TypeError | ReferenceError

datatype handle = Absent | Other | Ref nat

type_synonym heap = "nat \<Rightarrow> chart option"

text \<open>
  The charting library is not part of the repository. Its \<open>update()\<close> is modelled as
  one more redraw of the chart; its \<open>destroy()\<close> releases the drawing surface when the
  chart still holds one (and does nothing more when it was released before).
\<close>

definition Chart_update :: "chart \<Rightarrow> chart" where
  "Chart_update c = c\<lparr>redraws := redraws c + 1\<rparr>"

definition Chart_destroy :: "chart \<Rightarrow> chart" where
  "Chart_destroy c = (case ctx c of None \<Rightarrow> c | Some surface \<Rightarrow> c\<lparr>ctx := None\<rparr>)"

text \<open>
  \<open>updateChartData\<close>: the labels are replaced, every data set gets
  \<open>newData[index] || []\<close> (an array is never falsy, so the alternative is taken exactly
  when the index is out of range), and the chart is redrawn. Reading \<open>.data\<close> of an
  absent handle raises a TypeError. A reference always refers to an object of the store;
  the case of one that does not is there for totality only.
\<close>

definition updateChartData ::
  "heap \<Rightarrow> handle \<Rightarrow> string list \<Rightarrow> jsnum list list \<Rightarrow> error + heap" where
  "updateChartData h chart newLabels newData =
     (case chart of
        Absent \<Rightarrow> Inl TypeError
      | Other \<Rightarrow> Inl TypeError
      | Ref r \<Rightarrow>
          (case h r of
             None \<Rightarrow> Inl TypeError
           | Some c \<Rightarrow>
               Inr (h(r \<mapsto>
                 Chart_update
                   (c\<lparr>cdata :=
                        \<lparr>labels = newLabels,
                         datasets =
                           map (\<lambda>(index, ds).
                                  ds\<lparr>data := (case at_index newData index of
                                                 Some vs \<Rightarrow> vs
                                               | None \<Rightarrow> [])\<rparr>)
                               (enumerate 0 (datasets (cdata c)))\<rparr>\<rparr>)))))"

text \<open>
  \<open>destroyChart\<close>: \<open>chart.destroy()\<close> is called when the handle is truthy and has a
  \<open>destroy\<close> function, which every chart object has, destroyed before or not.
\<close>

definition destroyChart :: "heap \<Rightarrow> handle \<Rightarrow> error + heap" where
  "destroyChart h chart =
     (case chart of
        Absent \<Rightarrow> Inr h
      | Other \<Rightarrow> Inr h
      | Ref r \<Rightarrow>
          (case h r of
             None \<Rightarrow> Inr h
           | Some c \<Rightarrow> Inr (h(r \<mapsto> Chart_destroy c))))"

section \<open>The page: fields, forms and toasts\<close>

text \<open>
  Strings are lists of code units below 256. The white space that \<open>trim\<close> and
  \<open>parseFloat\<close> skip is, in that range, tab, line feed, vertical tab, form feed,
  carriage return, space and no-break space.
\<close>

definition trim :: "string \<Rightarrow> string" where
  "trim s = rev (dropWhile is_space (rev (dropWhile is_space s)))"

definition is_digit :: "char \<Rightarrow> bool" where
  "is_digit c = (48 \<le> (of_char c :: nat) \<and> (of_char c :: nat) \<le> 57)"

definition digits_val :: "string \<Rightarrow> nat" where
  "digits_val ds = foldl (\<lambda>a c. a * 10 + (of_char c - 48)) 0 ds"

text \<open>
  The exponent part of a decimal literal: \<open>e\<close> or \<open>E\<close>, an optional sign and at least
  one digit; anything else is no exponent.
\<close>

definition exponent :: "string \<Rightarrow> int" where
  "exponent s =
     (if take 1 s = ''e'' \<or> take 1 s = ''E'' then
        (let t = drop 1 s;
             neg = (take 1 t = ''-'');
             u = (if take 1 t = ''-'' \<or> take 1 t = ''+'' then drop 1 t else t);
             ds = takeWhile is_digit u
         in if ds = [] then 0
            else if neg then - int (digits_val ds) else int (digits_val ds))
      else 0)"

text \<open>
  \<open>parseFloat\<close>: leading white space is skipped and the longest prefix that is a
  decimal literal (or a signed \<open>Infinity\<close>) is read; with no such prefix the result is
  \<open>NaN\<close>. The value is the exact rational the literal denotes.
\<close>

definition parseFloat :: "string \<Rightarrow> jsnum" where
  "parseFloat s =
     (let t = dropWhile is_space s;
          neg = (take 1 t = ''-'');
          u = (if take 1 t = ''-'' \<or> take 1 t = ''+'' then drop 1 t else t)
      in if take 8 u = ''Infinity'' then (if neg then NegInf else PosInf)
         else
           (let ip = takeWhile is_digit u;
                r1 = dropWhile is_digit u;
                dot = (take 1 r1 = ''.'');
                fp = (if dot then takeWhile is_digit (drop 1 r1) else []);
                r2 = (if dot then dropWhile is_digit (drop 1 r1) else r1)
            in if ip = [] \<and> fp = [] then NaN
               else
                 (let mant = rat_of_nat (digits_val (ip @ fp)) / 10 ^ length fp;
                      ex = exponent r2;
                      scaled = (if 0 \<le> ex then mant * 10 ^ nat ex else mant / 10 ^ nat (- ex))
                  in Num (if neg then - scaled else scaled))))"

text \<open>A form control: its \<open>required\<close> attribute, its value and its class list.\<close>

record field =
  required :: bool
  fvalue :: string
  classList :: "string list"

definition classList_add :: "string \<Rightarrow> string list \<Rightarrow> string list" where
  "classList_add c cl = (if c \<in> set cl then cl else cl @ [c])"

definition classList_remove :: "string \<Rightarrow> string list \<Rightarrow> string list" where
  "classList_remove c cl = filter (\<lambda>x. x \<noteq> c) cl"

definition formatAmountInput :: "(rat \<Rightarrow> string) \<Rightarrow> field \<Rightarrow> field" where
  "formatAmountInput numberToString input =
     (let v = parseFloat (fvalue input)
      in if \<not> isNaN v \<and> js_positive v
         then input\<lparr>fvalue := toFixed numberToString 2 v\<rparr>
         else input)"


subsection \<open>Toasts\<close>

text \<open>
  The elements below \<open>body\<close> form a forest. An element has an identity, its class list,
  the markup assigned to its \<open>innerHTML\<close> (kept as text: it is not parsed into
  children), its inline style and its children. The document element, \<open>head\<close> and
  \<open>body\<close> themselves are not in the forest.
\<close>

datatype node =
  Element (eid: nat) (classes: "string list") (inner: string) (style: string)
    (kids: "node list")

definition is_toast :: "node \<Rightarrow> bool" where
  "is_toast n = (''notification-toast'' \<in> set (classes n))"

text \<open>
  \<open>document.querySelectorAll('.notification-toast')\<close>, in document order, and the
  forest after \<open>remove()\<close> on each of them.
\<close>

fun select_toasts :: "node \<Rightarrow> node list" where
  "select_toasts (Element i cs h st ks) =
     (if ''notification-toast'' \<in> set cs then [Element i cs h st ks] else [])
       @ concat (map select_toasts ks)"

definition querySelectorAll_toasts :: "node list \<Rightarrow> node list" where
  "querySelectorAll_toasts ns = concat (map select_toasts ns)"

fun prune :: "node \<Rightarrow> node" where
  "prune (Element i cs h st ks) =
     Element i cs h st (map prune (filter (\<lambda>k. \<not> is_toast k) ks))"

definition remove_toasts :: "node list \<Rightarrow> node list" where
  "remove_toasts ns = map prune (filter (\<lambda>k. \<not> is_toast k) ns)"

text \<open>What a timer does when it fires.\<close>

datatype action = RestoreSubmit string | DismissToast nat

record page =
  body :: "node list"
  next_id :: nat
  timers :: "(nat \<times> action) list"

definition newline :: string where
  "newline = [CHR 0x0A]"

text \<open>The close glyph, as the bytes of the source file.\<close>

definition close_glyph :: string where
  "close_glyph = [CHR 0xC3, CHR 0x83, CHR 0xE2, CHR 0x80, CHR 0x94]"

definition toast_prefix :: "string \<Rightarrow> string" where
  "toast_prefix ty =
     newline @ ''        <i data-feather=\"''
       @ (if ty = ''error'' then ''alert-circle'' else ''check-circle'')
       @ ''\"></i>'' @ newline @ ''        ''"

definition toast_suffix :: string where
  "toast_suffix =
     newline
       @ ''        <button type=\"button\" class=\"vintage-btn-close\" onclick=\"this.parentElement.remove()\">''
       @ close_glyph @ ''</button>'' @ newline @ ''    ''"

definition toast_style :: string where
  "toast_style =
     newline @ ''        position: fixed;''
       @ newline @ ''        top: 100px;''
       @ newline @ ''        right: 20px;''
       @ newline @ ''        z-index: 1050;''
       @ newline @ ''        min-width: 300px;''
       @ newline @ ''        max-width: 500px;''
       @ newline @ ''        animation: slideInRight 0.3s ease;''
       @ newline @ ''    ''"

text \<open>
  \<open>showNotification\<close>: every toast of the document is removed, a new element is created
  and appended to \<open>body\<close>, and its removal is scheduled after 5000 ms. The icon
  replacement by the icon library leaves the toast element in place and is not modelled.
\<close>

definition showNotification :: "string \<Rightarrow> string \<Rightarrow> page \<Rightarrow> page" where
  "showNotification message ty p =
     (let notification =
            Element (next_id p)
              [''notification-toast'', ''vintage-alert'',
               ''vintage-alert-'' @ (if ty = ''error'' then ''error'' else ''success'')]
              (toast_prefix ty @ message @ toast_suffix)
              toast_style
              []
      in p\<lparr>body := remove_toasts (body p) @ [notification],
           next_id := next_id p + 1,
           timers := timers p @ [(5000, DismissToast (next_id p))]\<rparr>)"

subsection \<open>Form submission\<close>

record button =
  disabled :: bool
  innerHTML :: string

record form =
  submitButton :: "button option"
  controls :: "field list"

text \<open>
  The state a submit event works on: the form, whether the default action has been
  prevented, and the page.
\<close>

record world =
  target :: form
  defaultPrevented :: bool
  document :: page

definition busy_label :: string where
  "busy_label = ''<i data-feather=\"loader\" class=\"spinning\"></i> Processing...''"

text \<open>The check of one control in the loop over \<open>[required]\<close> controls.\<close>

definition check_required :: "field \<Rightarrow> field" where
  "check_required f =
     (if required f then
        (if trim (fvalue f) = []
         then f\<lparr>classList := classList_add ''is-invalid'' (classList f)\<rparr>
         else f\<lparr>classList := classList_remove ''is-invalid'' (classList f)\<rparr>)
      else f)"

definition offending :: "field \<Rightarrow> bool" where
  "offending f = (required f \<and> trim (fvalue f) = [])"

text \<open>
  \<open>handleFormSubmit\<close>. \<open>originalText\<close> is declared with \<open>const\<close> inside the block of
  the first \<open>if (submitButton)\<close>, and no enclosing scope of the source declares that name:
  reading it in the later block raises a ReferenceError, after the button has been
  enabled again and before the toast. The result is the error thrown, if any, and the
  state reached.
\<close>

definition handleFormSubmit :: "world \<Rightarrow> error option \<times> world" where
  "handleFormSubmit w =
     (let form0 = target w;
          w1 = (case submitButton form0 of
                  None \<Rightarrow> w
                | Some b \<Rightarrow>
                    w\<lparr>target := form0\<lparr>submitButton :=
                                          Some (b\<lparr>disabled := True, innerHTML := busy_label\<rparr>)\<rparr>,
                      document := (document w)\<lparr>timers :=
                          timers (document w) @ [(3000, RestoreSubmit (innerHTML b))]\<rparr>\<rparr>);
          isValid = (filter offending (controls form0) = []);
          w2 = w1\<lparr>target := (target w1)\<lparr>controls := map check_required (controls form0)\<rparr>\<rparr>
      in if isValid then (None, w2)
         else
           (let w3 = w2\<lparr>defaultPrevented := True\<rparr>
            in case submitButton (target w3) of
                 Some b \<Rightarrow>
                   (Some ReferenceError,
                    w3\<lparr>target := (target w3)\<lparr>submitButton := Some (b\<lparr>disabled := False\<rparr>)\<rparr>\<rparr>)
               | None \<Rightarrow>
                   (None,
                    w3\<lparr>document :=
                         showNotification ''Please fill in all required fields.'' ''error''
                           (document w3)\<rparr>)))"

section \<open>Auxiliary definitions\<close>



text \<open>The data sets after \<open>updateChartData\<close>, index by index.\<close>

definition replaced :: "jsnum list list \<Rightarrow> dataset list \<Rightarrow> dataset list" where
  "replaced newData dss =
     map (\<lambda>(index, ds).
            ds\<lparr>data := (case at_index newData index of Some vs \<Rightarrow> vs | None \<Rightarrow> [])\<rparr>)
         (enumerate 0 dss)"

text \<open>Concrete inputs of the examples: a data set, a bar chart of two data sets, a store
  that holds it, and a form with a submit button and one required control left blank.\<close>

definition sample_dataset :: dataset where
  "sample_dataset =
     \<lparr>label = Some ''2024'', data = [Num 1, Num 2], backgroundColor = None,
      borderColor = None, fill = None\<rparr>"

definition sample_chart :: chart where
  "sample_chart = createBarChart 0 [''Q1'', ''Q2''] [sample_dataset, sample_dataset]"

definition sample_heap :: heap where
  "sample_heap = Map.empty(7 \<mapsto> sample_chart)"

definition blank_form :: world where
  "blank_form =
     \<lparr>target =
        \<lparr>submitButton = Some \<lparr>disabled = False, innerHTML = ''Save''\<rparr>,
         controls = [\<lparr>required = True, fvalue = ''  '', classList = []\<rparr>]\<rparr>,
      defaultPrevented = False,
      document = \<lparr>body = [], next_id = 0, timers = []\<rparr>\<rparr>"

section \<open>Digits and \<open>toFixed\<close>\<close>

lemma floor_rat_numeral: "\<lfloor>numeral a / numeral b :: rat\<rfloor> = numeral a div numeral b"
  using floor_divide_of_int_eq [of "numeral a" "numeral b", where ?'a = rat] by simp

lemma show_nat_numeral:
  "show_nat (numeral k) =
     (if (numeral k :: nat) < 10 then [digit (numeral k)]
      else show_nat (numeral k div 10) @ [digit (numeral k)])"
  by (rule show_nat.simps)

lemma show_nat_0: "show_nat 0 = ''0''"
  by (simp add: show_nat.simps [of 0] digit_def)

lemma show_nat_1: "show_nat (Suc 0) = ''1''"
  by (simp add: show_nat.simps [of "Suc 0"] digit_def)

lemmas show_nat_eval = show_nat_numeral show_nat_0 show_nat_1 digit_def floor_rat_numeral












lemma mem_classList_add: "c \<in> set (classList_add c cl)"
  by (simp add: classList_add_def)


lemmas parseFloat_eval =
  parseFloat_def is_space_def is_digit_def digits_val_def exponent_def Let_def




lemma parseFloat_Infinity: "parseFloat ''Infinity'' = PosInf"
  by (simp add: parseFloat_eval)

text \<open>
  The edge of \<open>toFixed\<close> on blur: the text \<open>Infinity\<close> parses as a positive number
  and is printed back by name.
\<close>

lemma blur_Infinity:
  "fvalue (formatAmountInput ts \<lparr>required = q, fvalue = ''Infinity'', classList = cl\<rparr>)
     = ''Infinity''"
  by (simp add: formatAmountInput_def parseFloat_Infinity toFixed_def)

section \<open>Percentages\<close>

text \<open>
  C2. Every percentage computation guards against a zero total and reports zero percent:
  \<open>calculatePercentage(v, 0)\<close> is 0 for every \<open>v\<close>, and the doughnut tooltip reports
  0% when the values of the data set sum to zero. The first half holds. The tooltip
  callback divides without a test: for the data set \<open>[0, 0]\<close> it prints \<open>NaN%\<close>.
\<close>

theorem zero_total_percentage:
  "calculatePercentage ts v (Num 0) = Number (Num 0) \<and>
   doughnutTooltipLabel ts
     \<lparr>context_label = ''Food'', parsed = Num 0, dataset_data = [Num 0, Num 0]\<rparr>
     = ''Food: $0 (NaN%)''"
  by (simp add: calculatePercentage_def doughnutTooltipLabel_def toFixed_def show_nat_eval
      Let_def)

section \<open>Currency text\<close>




section \<open>Amount fields\<close>



section \<open>Palette colours\<close>


lemma pie_colors:
  "datasets (cdata (createPieChart surface labs vals None)) =
     [\<lparr>label = None, data = vals,
       backgroundColor = Some (Colors (take (length labs) palette)),
       borderColor = Some ''#ffffff'', fill = None\<rparr>]"
  by (simp add: createPieChart_def new_Chart_def slice_def)





section \<open>The trend chart\<close>

text \<open>
  C4. For every sequence of points, the empty one included, the trend chart has exactly
  three series, Income, Expenses and Net Balance, each with one value per point (the
  incomes, the expenses and the balances, in order), and one label per point; on no
  points it is the chart with no label and three empty series. The constructor is a total
  function of the points: it raises nothing.
\<close>

theorem trend_series:
  "length (datasets (cdata (createMonthlyTrendChart surface points))) = 3
   \<and> map label (datasets (cdata (createMonthlyTrendChart surface points))) =
     [Some ''Income'', Some ''Expenses'', Some ''Net Balance'']
   \<and> map data (datasets (cdata (createMonthlyTrendChart surface points))) =
     [map income points, map expense points, map balance points]
   \<and> map (\<lambda>ds. length (data ds)) (datasets (cdata (createMonthlyTrendChart surface points))) =
     [length points, length points, length points]
   \<and> labels (cdata (createMonthlyTrendChart surface points)) = map month points
   \<and> labels (cdata (createMonthlyTrendChart surface [])) = []
   \<and> map data (datasets (cdata (createMonthlyTrendChart surface []))) = [[], [], []]"
  by (simp add: createMonthlyTrendChart_def new_Chart_def)

section \<open>Toasts\<close>





section \<open>Chart handles\<close>

lemma updateChartData_Ref:
  "h r = Some c \<Longrightarrow>
   updateChartData h (Ref r) newLabels newData =
     Inr (h(r \<mapsto> c\<lparr>cdata := \<lparr>labels = newLabels,
                                   datasets = replaced newData (datasets (cdata c))\<rparr>,
                         redraws := redraws c + 1\<rparr>))"
  by (simp add: updateChartData_def Chart_update_def replaced_def)

lemma length_replaced: "length (replaced newData dss) = length dss"
  by (simp add: replaced_def)

lemma nth_replaced:
  "i < length dss \<Longrightarrow>
   replaced newData dss ! i = (dss ! i)\<lparr>data := (if i < length newData then newData ! i else [])\<rparr>"
  by (simp add: replaced_def nth_enumerate_eq at_index_def)

lemma sample_datasets: "length (datasets (cdata sample_chart)) = 2"
  by (simp add: sample_chart_def createBarChart_def new_Chart_def)

text \<open>
  C8. For a handle that refers to a chart, \<open>updateChartData\<close> returns normally, and
  the store afterwards holds the same references as before (no chart object is
  constructed), every other object is as it was, and the object of the handle has its
  surface and type unchanged, one more redraw, the new labels, and the same number of data
  sets, each of which differs from the old one in its \<open>data\<close> only.
\<close>

theorem update_in_place:
  assumes "h r = Some c"
  shows "\<exists>h' c'. updateChartData h (Ref r) newLabels newData = Inr h'
           \<and> dom h' = dom h
           \<and> (\<forall>r'. r' \<noteq> r \<longrightarrow> h' r' = h r')
           \<and> h' r = Some c'
           \<and> ctx c' = ctx c \<and> ctype c' = ctype c
           \<and> redraws c' = redraws c + 1
           \<and> labels (cdata c') = newLabels
           \<and> length (datasets (cdata c')) = length (datasets (cdata c))
           \<and> (\<forall>i < length (datasets (cdata c)).
                 datasets (cdata c') ! i =
                   (datasets (cdata c) ! i)
                     \<lparr>data := (if i < length newData then newData ! i else [])\<rparr>)"
proof -
  let ?c' = "c\<lparr>cdata := \<lparr>labels = newLabels, datasets = replaced newData (datasets (cdata c))\<rparr>,
              redraws := redraws c + 1\<rparr>"
  have run: "updateChartData h (Ref r) newLabels newData = Inr (h(r \<mapsto> ?c'))"
    using assms by (simp add: updateChartData_Ref)
  have same: "dom (h(r \<mapsto> ?c')) = dom h"
    using assms by auto
  have sets: "\<forall>i < length (datasets (cdata c)).
      datasets (cdata ?c') ! i =
        (datasets (cdata c) ! i)\<lparr>data := (if i < length newData then newData ! i else [])\<rparr>"
    by (simp add: nth_replaced)
  show ?thesis
    using run same sets by (intro exI [of _ "h(r \<mapsto> ?c')"] exI [of _ ?c']) (simp add: length_replaced)
qed

text \<open>
  A bar chart of two data sets at reference 7, updated with two labels and one series:
  the store still holds reference 7 only, and the chart there has its surface, its type,
  the label of its first data set, one redraw, the new labels and the new first series.
\<close>

theorem update_in_place_witness:
  "sample_heap 7 = Some sample_chart
   \<and> (\<exists>h' c'. updateChartData sample_heap (Ref 7) [''Jan'', ''Feb''] [[Num 10, Num 20]] = Inr h'
         \<and> dom h' = {7} \<and> h' 7 = Some c'
         \<and> ctx c' = Some 0 \<and> ctype c' = ''bar'' \<and> redraws c' = 1
         \<and> labels (cdata c') = [''Jan'', ''Feb'']
         \<and> data (datasets (cdata c') ! 0) = [Num 10, Num 20]
         \<and> label (datasets (cdata c') ! 0) = Some ''2024'')"
proof -
  have live: "sample_heap 7 = Some sample_chart"
    by (simp add: sample_heap_def)
  from update_in_place [where h = sample_heap and r = 7 and c = sample_chart
      and newLabels = "[''Jan'', ''Feb'']" and newData = "[[Num 10, Num 20]]"] live
  obtain h' c' where
    run: "updateChartData sample_heap (Ref 7) [''Jan'', ''Feb''] [[Num 10, Num 20]] = Inr h'"
    and dm: "dom h' = dom sample_heap" and at: "h' 7 = Some c'"
    and same: "ctx c' = ctx sample_chart" "ctype c' = ctype sample_chart"
      "redraws c' = redraws sample_chart + 1"
    and labs: "labels (cdata c') = [''Jan'', ''Feb'']"
    and each: "\<forall>i < length (datasets (cdata sample_chart)).
        datasets (cdata c') ! i =
          (datasets (cdata sample_chart) ! i)
            \<lparr>data := (if i < length [[Num 10, Num 20]] then [[Num 10, Num 20]] ! i else [])\<rparr>"
    by blast
  have first: "datasets (cdata c') ! 0 =
      (datasets (cdata sample_chart) ! 0)\<lparr>data := [Num 10, Num 20]\<rparr>"
    using each sample_datasets by simp
  have "dom h' = {7}" using dm by (simp add: sample_heap_def)
  moreover have "ctx c' = Some 0" "ctype c' = ''bar''" "redraws c' = 1"
    using same by (simp_all add: sample_chart_def createBarChart_def new_Chart_def)
  moreover have "data (datasets (cdata c') ! 0) = [Num 10, Num 20]"
    using first by simp
  moreover have "label (datasets (cdata c') ! 0) = Some ''2024''"
    using first by (simp add: sample_chart_def createBarChart_def new_Chart_def sample_dataset_def)
  ultimately show ?thesis using live run at labs by blast
qed

text \<open>
  C10. When \<open>newData\<close> has fewer series than the chart has data sets, \<open>updateChartData\<close>
  returns normally and every data set at an index that \<open>newData\<close> does not cover has
  the empty array as its values afterwards.
\<close>

theorem uncovered_cleared:
  assumes "h r = Some c" and "length newData \<le> i" and "i < length (datasets (cdata c))"
  shows "\<exists>h' c'. updateChartData h (Ref r) newLabels newData = Inr h'
           \<and> h' r = Some c'
           \<and> data (datasets (cdata c') ! i) = []"
proof -
  let ?c' = "c\<lparr>cdata := \<lparr>labels = newLabels, datasets = replaced newData (datasets (cdata c))\<rparr>,
              redraws := redraws c + 1\<rparr>"
  have run: "updateChartData h (Ref r) newLabels newData = Inr (h(r \<mapsto> ?c'))"
    using assms(1) by (simp add: updateChartData_Ref)
  have "data (datasets (cdata ?c') ! i) = []"
    using assms(2,3) by (simp add: nth_replaced)
  then show ?thesis
    using run by (intro exI [of _ "h(r \<mapsto> ?c')"] exI [of _ ?c']) simp
qed

text \<open>
  The same chart and update: the second data set, which held two values and which the
  one new series does not cover, is empty afterwards.
\<close>

theorem uncovered_cleared_witness:
  "sample_heap 7 = Some sample_chart \<and> length [[Num 10, Num 20]] \<le> (1::nat)
   \<and> (1::nat) < length (datasets (cdata sample_chart))
   \<and> (\<exists>h' c'. updateChartData sample_heap (Ref 7) [''Jan'', ''Feb''] [[Num 10, Num 20]] = Inr h'
         \<and> h' 7 = Some c' \<and> data (datasets (cdata c') ! 1) = [])"
proof -
  have live: "sample_heap 7 = Some sample_chart"
    by (simp add: sample_heap_def)
  have short: "length [[Num 10, Num 20]] \<le> (1::nat)" by simp
  have within: "(1::nat) < length (datasets (cdata sample_chart))"
    by (simp add: sample_datasets)
  show ?thesis
    using live short within
      uncovered_cleared [where h = sample_heap and r = 7 and c = sample_chart
        and newLabels = "[''Jan'', ''Feb'']" and newData = "[[Num 10, Num 20]]" and i = 1]
    by blast
qed

text \<open>
  C9. \<open>destroyChart\<close> on an absent handle, or on a value that is no chart, returns
  normally and leaves the store as it is. On a reference it returns normally, and a second
  call on the same reference returns normally and leaves the store as the first call left
  it.
\<close>

theorem destroy_safe:
  "destroyChart h Absent = Inr h
   \<and> destroyChart h Other = Inr h
   \<and> (\<exists>h1. destroyChart h (Ref r) = Inr h1 \<and> destroyChart h1 (Ref r) = Inr h1)"
proof -
  have again: "\<exists>h1. destroyChart h (Ref r) = Inr h1 \<and> destroyChart h1 (Ref r) = Inr h1"
  proof (cases "h r")
    case None
    then show ?thesis by (simp add: destroyChart_def)
  next
    case (Some c)
    have idem: "Chart_destroy (Chart_destroy c) = Chart_destroy c"
      by (simp add: Chart_destroy_def split: option.splits)
    show ?thesis using Some by (simp add: destroyChart_def idem)
  qed
  then show ?thesis by (simp add: destroyChart_def)
qed

section \<open>Form submission\<close>

lemma trim_blank: "trim ''  '' = []"
  by (simp add: trim_def is_space_def)

lemma check_required_offending:
  "offending f \<Longrightarrow> ''is-invalid'' \<in> set (classList (check_required f))"
  by (simp add: offending_def check_required_def mem_classList_add)

text \<open>
  With a submit button and an offending control, the handler cancels the submission and
  enables the button again, then throws: the label of the button stays the busy label and
  the document gets no toast.
\<close>

lemma submit_invalid_with_button:
  "submitButton (target w) = Some b \<Longrightarrow> filter offending (controls (target w)) \<noteq> [] \<Longrightarrow>
   fst (handleFormSubmit w) = Some ReferenceError
   \<and> querySelectorAll_toasts (body (document (snd (handleFormSubmit w)))) =
       querySelectorAll_toasts (body (document w))
   \<and> submitButton (target (snd (handleFormSubmit w))) =
       Some \<lparr>disabled = False, innerHTML = busy_label\<rparr>
   \<and> defaultPrevented (snd (handleFormSubmit w))"
  by (simp add: handleFormSubmit_def Let_def)

text \<open>Without a submit button it does what the claim says.\<close>

lemma submit_invalid_without_button:
  "submitButton (target w) = None \<Longrightarrow> filter offending (controls (target w)) \<noteq> [] \<Longrightarrow>
   handleFormSubmit w =
     (None,
      w\<lparr>target := (target w)\<lparr>controls := map check_required (controls (target w))\<rparr>,
        defaultPrevented := True,
        document := showNotification ''Please fill in all required fields.'' ''error'' (document w)\<rparr>)"
  by (simp add: handleFormSubmit_def Let_def)

text \<open>
  C3. When a required control is empty or blank, the submit handler should cancel the
  submission, mark the offending controls, restore and enable the submit button, show an
  error toast, and not throw. On a form with a submit button labelled \<open>Save\<close> and one
  required control holding two spaces, the handler cancels the submission, marks the
  control and enables the button, and then throws a ReferenceError: the button keeps the
  busy label and no toast is shown. What is left is the timer that restores the button
  after 3000 ms.
\<close>

theorem submit_blank_required:
  "handleFormSubmit blank_form =
     (Some ReferenceError,
      \<lparr>target =
         \<lparr>submitButton = Some \<lparr>disabled = False, innerHTML = busy_label\<rparr>,
          controls = [\<lparr>required = True, fvalue = ''  '', classList = [''is-invalid'']\<rparr>]\<rparr>,
       defaultPrevented = True,
       document = \<lparr>body = [], next_id = 0, timers = [(3000, RestoreSubmit ''Save'')]\<rparr>\<rparr>)"
  by (simp add: handleFormSubmit_def blank_form_def offending_def check_required_def
      classList_add_def trim_blank Let_def)

end
